theory Spec2Isabelle
  imports Main "HOL-Library.Word" "HOL-Library.Monad_Syntax"
begin

unbundle bit_operations_syntax

section \<open>Strings\<close>

text \<open>
  Python strings are modelled as \<open>string\<close> (a list of 8-bit characters): the text in its
  UTF-8 encoding, so \<open>content.encode()\<close> is the identity. Character classes and case
  folding are the ASCII ones.
\<close>

definition upper_letters :: string where
  "upper_letters = ''ABCDEFGHIJKLMNOPQRSTUVWXYZ''"

definition lower_letters :: string where
  "lower_letters = ''abcdefghijklmnopqrstuvwxyz''"

definition digit_chars :: string where
  "digit_chars = ''0123456789''"

definition lower_char :: "char \<Rightarrow> char" where
  "lower_char c = (case map_of (zip upper_letters lower_letters) c of Some l \<Rightarrow> l | None \<Rightarrow> c)"

text \<open>\<open>str.lower()\<close>\<close>

definition lower :: "string \<Rightarrow> string" where
  "lower s = map lower_char s"

text \<open>\<open>needle in haystack\<close> on strings: some suffix of the haystack starts with the needle.\<close>

fun starts_with :: "string \<Rightarrow> string \<Rightarrow> bool" where
  "starts_with [] s = True"
| "starts_with (k # ks) [] = False"
| "starts_with (k # ks) (c # cs) = (k = c \<and> starts_with ks cs)"

fun str_contains :: "string \<Rightarrow> string \<Rightarrow> bool" where
  "str_contains needle [] = starts_with needle []"
| "str_contains needle (c # cs) = (starts_with needle (c # cs) \<or> str_contains needle cs)"

section \<open>canvas.py: keyword matching\<close>

text \<open>
  \<open>matches_keywords(text, keywords)\<close>: false on an empty list, otherwise whether any
  lower-cased keyword is a substring of the lower-cased text.
\<close>

definition matches_keywords :: "string \<Rightarrow> string list \<Rightarrow> bool" where
  "matches_keywords text keywords =
     (if keywords = [] then False
      else list_ex (\<lambda>keyword. str_contains (lower keyword) (lower text)) keywords)"

section \<open>canvas.py: course identifier extraction\<close>

text \<open>
  \<open>re.search(r"\[([A-Z0-9-]+)(?:-\d{2})? [^\]]+\]", summary)\<close>, with Python's backtracking
  order: a matcher returns the inputs left after each way of matching, the preferred way
  first. A greedy \<open>+\<close> prefers the longest run, a greedy \<open>?\<close> prefers to match.
\<close>

definition is_course_char :: "char \<Rightarrow> bool" where
  "is_course_char c = (c \<in> set (upper_letters @ digit_chars @ ''-''))"

definition is_digit :: "char \<Rightarrow> bool" where
  "is_digit c = (c \<in> set digit_chars)"

definition not_rbracket :: "char \<Rightarrow> bool" where
  "not_rbracket c = (c \<noteq> CHR '']'')"

text \<open>A greedy \<open>[class]+\<close>: every split (matched, rest) with at least one character, longest first.\<close>

fun plus_greedy :: "(char \<Rightarrow> bool) \<Rightarrow> string \<Rightarrow> (string \<times> string) list" where
  "plus_greedy P [] = []"
| "plus_greedy P (c # cs) =
     (if P c then map (\<lambda>(m, r). (c # m, r)) (plus_greedy P cs) @ [([c], cs)] else [])"

text \<open>A literal character.\<close>

definition lit :: "char \<Rightarrow> string \<Rightarrow> string list" where
  "lit c s = (case s of [] \<Rightarrow> [] | x # r \<Rightarrow> if x = c then [r] else [])"

text \<open>\<open>(?:-\d{2})?\<close>: the section suffix when it is there, then the empty match.\<close>

definition opt_section :: "string \<Rightarrow> string list" where
  "opt_section s =
     (case s of
        h # d1 # d2 # r \<Rightarrow> if h = CHR ''-'' \<and> is_digit d1 \<and> is_digit d2 then [r, s] else [s]
      | _ \<Rightarrow> [s])"

text \<open>What follows the group: \<open>(?:-\d{2})? [^\]]+\]\<close>.\<close>

definition after_group :: "string \<Rightarrow> string list" where
  "after_group s =
     List.bind (opt_section s) (\<lambda>s1.
     List.bind (lit (CHR '' '') s1) (\<lambda>s2.
     List.bind (map snd (plus_greedy not_rbracket s2)) (\<lambda>s3.
     lit (CHR '']'') s3)))"

text \<open>The first candidate for group 1 after which the rest of the pattern matches.\<close>

fun first_group :: "(string \<times> string) list \<Rightarrow> string option" where
  "first_group [] = None"
| "first_group ((g, r) # rest) = (if after_group r \<noteq> [] then Some g else first_group rest)"

definition match_course_at :: "string \<Rightarrow> string option" where
  "match_course_at s =
     (case s of
        [] \<Rightarrow> None
      | c # r \<Rightarrow> if c = CHR ''['' then first_group (plus_greedy is_course_char r) else None)"

text \<open>\<open>re.search\<close>: the leftmost start position at which the pattern matches.\<close>

fun search_course :: "string \<Rightarrow> string option" where
  "search_course [] = None"
| "search_course (c # cs) =
     (case match_course_at (c # cs) of Some g \<Rightarrow> Some g | None \<Rightarrow> search_course cs)"

definition extract_course_id_from_summary :: "string \<Rightarrow> string option" where
  "extract_course_id_from_summary summary = search_course summary"

section \<open>canvas.py: assignment type tag\<close>

definition ASSIGNMENT_TYPE_KEYWORDS :: "(string \<times> string list) list" where
  "ASSIGNMENT_TYPE_KEYWORDS =
     [(''Practical'', [''practical'']),
      (''Exam'', [''exam'', ''midterm'', ''final'', ''test'']),
      (''Essay'', [''essay'', ''paper'', ''report'']),
      (''Lab'', [''lab'']),
      (''Presentation'', [''presentation'', ''slides'']),
      (''Discussion'', [''discussion'']),
      (''Project'', [''project'']),
      (''Quiz'', [''quiz''])]"

definition DEFAULT_ASSIGNMENT_TYPE_TAG :: string where
  "DEFAULT_ASSIGNMENT_TYPE_TAG = ''Assignment''"

text \<open>
  \<open>re.search(r"\b" + re.escape(keyword) + r"\b", text)\<close>. \<open>re.escape\<close> makes the keyword a
  literal; \<open>\b\<close> holds between a word character (\<open>[A-Za-z0-9_]\<close>) and a non-word
  character or an end of the text. The scan carries the character preceding the position.
\<close>

definition is_word_char :: "char \<Rightarrow> bool" where
  "is_word_char c = (c \<in> set (lower_letters @ upper_letters @ digit_chars @ ''_''))"

definition word_boundary :: "char option \<Rightarrow> char option \<Rightarrow> bool" where
  "word_boundary prev nxt =
     ((case prev of None \<Rightarrow> False | Some c \<Rightarrow> is_word_char c) \<noteq>
      (case nxt of None \<Rightarrow> False | Some c \<Rightarrow> is_word_char c))"

definition first_char :: "string \<Rightarrow> char option" where
  "first_char s = (case s of [] \<Rightarrow> None | c # _ \<Rightarrow> Some c)"

definition word_at :: "char option \<Rightarrow> string \<Rightarrow> string \<Rightarrow> bool" where
  "word_at prev keyword s =
     (word_boundary prev (first_char s) \<and> starts_with keyword s \<and>
      word_boundary (if keyword = [] then prev else Some (last keyword))
        (first_char (drop (length keyword) s)))"

fun search_word_from :: "char option \<Rightarrow> string \<Rightarrow> string \<Rightarrow> bool" where
  "search_word_from prev keyword [] = word_at prev keyword []"
| "search_word_from prev keyword (c # cs) =
     (word_at prev keyword (c # cs) \<or> search_word_from (Some c) keyword cs)"

definition search_word :: "string \<Rightarrow> string \<Rightarrow> bool" where
  "search_word keyword text = search_word_from None keyword text"

text \<open>The inner loop over one tag's keywords, and the outer loop over the table.\<close>

fun any_keyword :: "string list \<Rightarrow> string \<Rightarrow> bool" where
  "any_keyword [] summary_lower = False"
| "any_keyword (keyword # keywords) summary_lower =
     (if search_word keyword summary_lower then True else any_keyword keywords summary_lower)"

fun scan_tags :: "(string \<times> string list) list \<Rightarrow> string \<Rightarrow> string" where
  "scan_tags [] summary_lower = DEFAULT_ASSIGNMENT_TYPE_TAG"
| "scan_tags ((tag, keywords) # rest) summary_lower =
     (if any_keyword keywords summary_lower then tag else scan_tags rest summary_lower)"

definition get_assignment_type_tag :: "string \<Rightarrow> string" where
  "get_assignment_type_tag summary = scan_tags ASSIGNMENT_TYPE_KEYWORDS (lower summary)"

text \<open>
  The tagging rule in the specification's words: the first table entry one of whose
  keywords occurs as a whole word in the lower-cased title, else the default tag.
\<close>

definition first_matching_tag :: "(string \<times> string list) list \<Rightarrow> string \<Rightarrow> string" where
  "first_matching_tag table title =
     (case find (\<lambda>entry. list_ex (\<lambda>keyword. search_word keyword (lower title)) (snd entry)) table of
        None \<Rightarrow> DEFAULT_ASSIGNMENT_TYPE_TAG
      | Some entry \<Rightarrow> fst entry)"

section \<open>Dates and times\<close>

text \<open>
  \<open>datetime.date\<close> and \<open>datetime.datetime\<close>. The offset of an aware datetime is kept in
  minutes; \<open>None\<close> is a naive datetime. \<open>Other_value\<close> stands for a property value that
  is neither (a duration or a period), kept as its \<open>str()\<close>.
\<close>

record date =
  year :: nat
  month :: nat
  day :: nat

record datetime =
  on_date :: date
  hour :: nat
  minute :: nat
  second :: nat
  microsecond :: nat
  utcoffset :: "int option"

datatype dt_value = Date_value date | Datetime_value datetime | Other_value string

text \<open>\<open>a <= b\<close> on dates.\<close>

definition date_le :: "date \<Rightarrow> date \<Rightarrow> bool" where
  "date_le a b =
     (year a < year b \<or>
      (year a = year b \<and> (month a < month b \<or> (month a = month b \<and> day a \<le> day b))))"

text \<open>\<open>str()\<close> of a date or datetime: the ISO format, with a space before the time.\<close>

fun decimal :: "nat \<Rightarrow> string" where
  "decimal n = (if n < 10 then [digit_chars ! n] else decimal (n div 10) @ [digit_chars ! (n mod 10)])"

declare decimal.simps [simp del]

definition zero_pad :: "nat \<Rightarrow> nat \<Rightarrow> string" where
  "zero_pad width n = replicate (width - length (decimal n)) (CHR ''0'') @ decimal n"

definition str_date :: "date \<Rightarrow> string" where
  "str_date d = zero_pad 4 (year d) @ ''-'' @ zero_pad 2 (month d) @ ''-'' @ zero_pad 2 (day d)"

definition str_offset :: "int \<Rightarrow> string" where
  "str_offset m =
     (if m < 0 then ''-'' else ''+'') @ zero_pad 2 (nat \<bar>m\<bar> div 60) @ '':'' @ zero_pad 2 (nat \<bar>m\<bar> mod 60)"

definition str_datetime :: "datetime \<Rightarrow> string" where
  "str_datetime t =
     str_date (on_date t) @ '' '' @ zero_pad 2 (hour t) @ '':'' @ zero_pad 2 (minute t) @ '':'' @
     zero_pad 2 (second t) @
     (if microsecond t = 0 then [] else ''.'' @ zero_pad 6 (microsecond t)) @
     (case utcoffset t of None \<Rightarrow> [] | Some m \<Rightarrow> str_offset m)"

fun str_dt :: "dt_value \<Rightarrow> string" where
  "str_dt (Date_value d) = str_date d"
| "str_dt (Datetime_value t) = str_datetime t"
| "str_dt (Other_value s) = s"

section \<open>Feed items and calendar components\<close>

text \<open>
  An item is the dict that \<open>fetch_canvas_items\<close> builds and the other modules read. A field
  is \<open>None\<close> when the key is missing (for \<open>dtstart\<close> and \<open>dtend\<close> also when the key holds
  Python's \<open>None\<close>: the code reads them with \<open>get\<close> only). \<open>item[key]\<close> on a missing key
  raises KeyError, which is \<open>None\<close> in the option monad; \<open>item.get(key, default)\<close> is
  \<open>get_default\<close>. A property value \<open>v\<close> of the icalendar library is modelled by \<open>v.dt\<close>.
\<close>

record item =
  uid :: "string option"
  summary :: "string option"
  dtstart :: "dt_value option"
  dtend :: "dt_value option"
  description :: "string option"
  url :: "string option"
  location :: "string option"
  course_id :: "string option"
  type_tag :: "string option"

definition get_default :: "'a option \<Rightarrow> 'a \<Rightarrow> 'a" where
  "get_default v d = (case v of None \<Rightarrow> d | Some x \<Rightarrow> x)"

text \<open>Truth value of \<open>item.get(key)\<close> for a string field: present and not empty.\<close>

definition truthy :: "string option \<Rightarrow> bool" where
  "truthy v = (case v of None \<Rightarrow> False | Some s \<Rightarrow> s \<noteq> [])"

text \<open>
  An iCalendar component (\<open>Todo\<close>, \<open>Event\<close>, or one read back from the server): its name and
  the properties this program reads or writes, each absent (\<open>None\<close>) or present.
\<close>

record component =
  NAME :: string
  UID :: "string option"
  SUMMARY :: "string option"
  DTSTART :: "dt_value option"
  DTEND :: "dt_value option"
  DUE :: "dt_value option"
  DESCRIPTION :: "string option"
  URL :: "string option"
  LOCATION :: "string option"
  DTSTAMP :: "dt_value option"
  CREATED :: "dt_value option"
  LAST_MODIFIED :: "dt_value option"
  STATUS :: "string option"
  PRIORITY :: "int option"
  PERCENT_COMPLETE :: "int option"
  COMPLETED :: "dt_value option"
  X_CANVAS_HASH :: "string option"
  CATEGORIES :: "string list option"

text \<open>\<open>Todo()\<close> and \<open>Event()\<close>: a component with no property yet.\<close>

definition new_component :: "string \<Rightarrow> component" where
  "new_component n =
     \<lparr>NAME = n, UID = None, SUMMARY = None, DTSTART = None, DTEND = None, DUE = None,
      DESCRIPTION = None, URL = None, LOCATION = None, DTSTAMP = None, CREATED = None,
      LAST_MODIFIED = None, STATUS = None, PRIORITY = None, PERCENT_COMPLETE = None,
      COMPLETED = None, X_CANVAS_HASH = None, CATEGORIES = None\<rparr>"

section \<open>canvas.py: date range\<close>

definition get_item_date :: "'a item_scheme \<Rightarrow> date option" where
  "get_item_date it =
     (case dtstart it of
        None \<Rightarrow> None
      | Some (Datetime_value t) \<Rightarrow> Some (on_date t)
      | Some (Date_value d) \<Rightarrow> Some d
      | Some (Other_value s) \<Rightarrow> None)"

definition is_within_date_range :: "'a item_scheme \<Rightarrow> date option \<Rightarrow> bool" where
  "is_within_date_range it end_date =
     (case end_date of
        None \<Rightarrow> True
      | Some e \<Rightarrow> (case get_item_date it of None \<Rightarrow> True | Some item_date \<Rightarrow> date_le item_date e))"

section \<open>canvas.py: classification\<close>

text \<open>
  The part of the configuration that the loop of \<open>fetch_canvas_items\<close> reads: the parsed end
  date and the three keyword lists.
\<close>

record sync_config =
  end_date :: "date option"
  no_class_keywords :: "string list"
  assignment_uid_keywords :: "string list"
  assignment_summary_keywords :: "string list"

text \<open>The four lists the loop appends to.\<close>

record buckets =
  assignments :: "item list"
  no_class_events :: "item list"
  skipped :: "item list"
  filtered_out :: "item list"

text \<open>
  \<open>item_info\<close> as built from a VEVENT: every text field is \<open>str(component.get(KEY, ""))\<close>,
  \<open>course_id\<close> is set when the extraction returns a non-empty string.
\<close>

definition item_info_of :: "component \<Rightarrow> item" where
  "item_info_of c =
     \<lparr>uid = Some (get_default (UID c) []),
      summary = Some (get_default (SUMMARY c) []),
      dtstart = DTSTART c,
      dtend = DTEND c,
      description = Some (get_default (DESCRIPTION c) []),
      url = Some (get_default (URL c) []),
      location = Some (get_default (LOCATION c) []),
      course_id =
        (let course = extract_course_id_from_summary (get_default (SUMMARY c) [])
         in if truthy course then course else None),
      type_tag = None\<rparr>"

text \<open>
  One pass of the loop body. The dict appended to a list is the object that the last
  statement of the body updates, so the appended value already carries the type tag when
  \<open>item_info in assignments\<close> holds; that test is made on the list after the append.
\<close>

definition classify_step :: "sync_config \<Rightarrow> buckets \<Rightarrow> component \<Rightarrow> buckets" where
  "classify_step cfg b c =
     (if NAME c \<noteq> ''VEVENT'' then b
      else
        let summary_text = get_default (SUMMARY c) [];
            uid_text = get_default (UID c) [];
            item_info = item_info_of c;
            tagged = item_info\<lparr>type_tag := Some (get_assignment_type_tag summary_text)\<rparr>
        in
          if \<not> is_within_date_range item_info (end_date cfg)
          then b\<lparr>filtered_out := filtered_out b @ [item_info]\<rparr>
          else if matches_keywords summary_text (no_class_keywords cfg)
          then b\<lparr>no_class_events := no_class_events b @
                 [if item_info \<in> set (assignments b) then tagged else item_info]\<rparr>
          else if truthy (course_id item_info)
          then b\<lparr>assignments := assignments b @ [tagged]\<rparr>
          else if matches_keywords uid_text (assignment_uid_keywords cfg) \<or>
                  matches_keywords summary_text (assignment_summary_keywords cfg)
          then b\<lparr>assignments := assignments b @ [tagged]\<rparr>
          else b\<lparr>skipped := skipped b @
                 [if item_info \<in> set (assignments b) then tagged else item_info]\<rparr>)"

definition empty_buckets :: buckets where
  "empty_buckets = \<lparr>assignments = [], no_class_events = [], skipped = [], filtered_out = []\<rparr>"

text \<open>The loop over \<open>cal.walk()\<close>, and what \<open>fetch_canvas_items\<close> returns.\<close>

definition classify_all :: "sync_config \<Rightarrow> component list \<Rightarrow> buckets" where
  "classify_all cfg components = foldl (classify_step cfg) empty_buckets components"

definition fetch_canvas_items :: "sync_config \<Rightarrow> component list \<Rightarrow> item list \<times> item list" where
  "fetch_canvas_items cfg components =
     (let b = classify_all cfg components in (assignments b, no_class_events b))"

section \<open>hashlib: MD5\<close>

text \<open>
  \<open>hashlib.md5(data).hexdigest()\<close>, the MD5 message digest of RFC 1321 over 32-bit words,
  printed as 32 lower-case hexadecimal digits. Bytes are numbers below 256.
\<close>

definition md5_shifts :: "nat list" where
  "md5_shifts =
     [7, 12, 17, 22, 7, 12, 17, 22, 7, 12, 17, 22, 7, 12, 17, 22,
      5, 9, 14, 20, 5, 9, 14, 20, 5, 9, 14, 20, 5, 9, 14, 20,
      4, 11, 16, 23, 4, 11, 16, 23, 4, 11, 16, 23, 4, 11, 16, 23,
      6, 10, 15, 21, 6, 10, 15, 21, 6, 10, 15, 21, 6, 10, 15, 21]"

definition md5_sines :: "32 word list" where
  "md5_sines =
     [0xd76aa478, 0xe8c7b756, 0x242070db, 0xc1bdceee,
      0xf57c0faf, 0x4787c62a, 0xa8304613, 0xfd469501,
      0x698098d8, 0x8b44f7af, 0xffff5bb1, 0x895cd7be,
      0x6b901122, 0xfd987193, 0xa679438e, 0x49b40821,
      0xf61e2562, 0xc040b340, 0x265e5a51, 0xe9b6c7aa,
      0xd62f105d, 0x02441453, 0xd8a1e681, 0xe7d3fbc8,
      0x21e1cde6, 0xc33707d6, 0xf4d50d87, 0x455a14ed,
      0xa9e3e905, 0xfcefa3f8, 0x676f02d9, 0x8d2a4c8a,
      0xfffa3942, 0x8771f681, 0x6d9d6122, 0xfde5380c,
      0xa4beea44, 0x4bdecfa9, 0xf6bb4b60, 0xbebfbc70,
      0x289b7ec6, 0xeaa127fa, 0xd4ef3085, 0x04881d05,
      0xd9d4d039, 0xe6db99e5, 0x1fa27cf8, 0xc4ac5665,
      0xf4292244, 0x432aff97, 0xab9423a7, 0xfc93a039,
      0x655b59c3, 0x8f0ccc92, 0xffeff47d, 0x85845dd1,
      0x6fa87e4f, 0xfe2ce6e0, 0xa3014314, 0x4e0811a1,
      0xf7537e82, 0xbd3af235, 0x2ad7d2bb, 0xeb86d391]"

definition rotate_left :: "nat \<Rightarrow> 32 word \<Rightarrow> 32 word" where
  "rotate_left n w = (push_bit n w OR drop_bit (32 - n) w)"

type_synonym md5_state = "32 word \<times> 32 word \<times> 32 word \<times> 32 word"

definition md5_mix :: "nat \<Rightarrow> 32 word \<Rightarrow> 32 word \<Rightarrow> 32 word \<Rightarrow> 32 word" where
  "md5_mix i b c d =
     (if i < 16 then (b AND c) OR (NOT b AND d)
      else if i < 32 then (d AND b) OR (NOT d AND c)
      else if i < 48 then b XOR c XOR d
      else c XOR (b OR NOT d))"

definition md5_index :: "nat \<Rightarrow> nat" where
  "md5_index i =
     (if i < 16 then i
      else if i < 32 then (5 * i + 1) mod 16
      else if i < 48 then (3 * i + 5) mod 16
      else (7 * i) mod 16)"

definition md5_step :: "32 word list \<Rightarrow> md5_state \<Rightarrow> nat \<Rightarrow> md5_state" where
  "md5_step block st i =
     (case st of (a, b, c, d) \<Rightarrow>
        (d, b + rotate_left (md5_shifts ! i)
                  (md5_mix i b c d + a + md5_sines ! i + block ! md5_index i), b, c))"

definition md5_block :: "md5_state \<Rightarrow> 32 word list \<Rightarrow> md5_state" where
  "md5_block st block =
     (case st of (a0, b0, c0, d0) \<Rightarrow>
        (case foldl (md5_step block) st [0..<64] of (a, b, c, d) \<Rightarrow>
           (a0 + a, b0 + b, c0 + c, d0 + d)))"

text \<open>Little-endian bytes of a number and of a word, and the word of four bytes.\<close>

fun le_bytes :: "nat \<Rightarrow> nat \<Rightarrow> nat list" where
  "le_bytes 0 n = []"
| "le_bytes (Suc k) n = (n mod 256) # le_bytes k (n div 256)"

fun le_word :: "nat list \<Rightarrow> 32 word" where
  "le_word [] = 0"
| "le_word (b # bs) = of_nat b + 256 * le_word bs"

fun word_bytes :: "nat \<Rightarrow> 32 word \<Rightarrow> nat list" where
  "word_bytes 0 w = []"
| "word_bytes (Suc k) w = unat (w AND 255) # word_bytes k (drop_bit 8 w)"

fun split_every :: "nat \<Rightarrow> 'a list \<Rightarrow> 'a list list" where
  "split_every n [] = []"
| "split_every n (x # xs) =
     (if n = 0 then [] else take n (x # xs) # split_every n (drop n (x # xs)))"

definition md5_pad :: "nat list \<Rightarrow> nat list" where
  "md5_pad bs =
     bs @ [128] @ replicate ((119 - length bs mod 64) mod 64) 0 @ le_bytes 8 (8 * length bs)"

definition md5_words :: "nat list \<Rightarrow> 32 word list" where
  "md5_words block = map le_word (split_every 4 block)"

definition md5_initial :: md5_state where
  "md5_initial = (0x67452301, 0xefcdab89, 0x98badcfe, 0x10325476)"

definition md5_digest :: "nat list \<Rightarrow> nat list" where
  "md5_digest bs =
     (case foldl md5_block md5_initial (map md5_words (split_every 64 (md5_pad bs))) of
        (a, b, c, d) \<Rightarrow>
          word_bytes 4 a @ word_bytes 4 b @ word_bytes 4 c @ word_bytes 4 d)"

definition hex_digits :: string where
  "hex_digits = ''0123456789abcdef''"

definition hex_byte :: "nat \<Rightarrow> string" where
  "hex_byte b = [hex_digits ! (b div 16), hex_digits ! (b mod 16)]"

definition md5_hexdigest :: "string \<Rightarrow> string" where
  "md5_hexdigest s = concat (map hex_byte (md5_digest (map of_char s)))"

section \<open>ical_helpers.py: content hash and identifiers\<close>

text \<open>
  The string that \<open>compute_item_hash\<close> builds. \<open>item.get(key, '')\<close> reads a missing text
  field as the empty string; a date is added when the field is there; \<open>course_id\<close> and
  \<open>type_tag\<close> are added when they are there and not empty. Any further keys of the dict
  (the record's extension) are not read.
\<close>

definition hash_content :: "'a item_scheme \<Rightarrow> string" where
  "hash_content it =
     get_default (summary it) [] @
     ''|'' @ get_default (description it) [] @
     ''|'' @ get_default (url it) [] @
     ''|'' @ get_default (location it) [] @
     (case dtstart it of None \<Rightarrow> [] | Some d \<Rightarrow> ''|start:'' @ str_dt d) @
     (case dtend it of None \<Rightarrow> [] | Some d \<Rightarrow> ''|end:'' @ str_dt d) @
     (if truthy (course_id it) then ''|course_id:'' @ get_default (course_id it) [] else []) @
     (if truthy (type_tag it) then ''|type_tag:'' @ get_default (type_tag it) [] else [])"

definition compute_item_hash :: "'a item_scheme \<Rightarrow> string" where
  "compute_item_hash it = take 16 (md5_hexdigest (hash_content it))"

definition create_uid :: "string \<Rightarrow> string \<Rightarrow> string" where
  "create_uid canvas_uid prefix = ''canvas-'' @ prefix @ ''-'' @ canvas_uid"

section \<open>ical_helpers.py: building components\<close>

definition newline :: char where
  "newline = CHR 0x0A"

text \<open>\<open>sep.join(parts)\<close>\<close>

fun join :: "string \<Rightarrow> string list \<Rightarrow> string" where
  "join sep [] = []"
| "join sep [p] = p"
| "join sep (p # q # ps) = p @ sep @ join sep (q # ps)"

text \<open>The description of a task: the item's description and a line with the URL.\<close>

definition description_parts :: "string \<Rightarrow> string \<Rightarrow> string list" where
  "description_parts d link =
     (if d \<noteq> [] then [d] else []) @ (if link \<noteq> [] then [newline # ''Canvas: '' @ link] else [])"

definition todo_description :: "string \<Rightarrow> string \<Rightarrow> string option" where
  "todo_description d link =
     (if description_parts d link \<noteq> [] then Some (join [newline] (description_parts d link))
      else None)"

text \<open>\<open>assignment.get("dtend") or assignment.get("dtstart")\<close>\<close>

definition due_date :: "'a item_scheme \<Rightarrow> dt_value option" where
  "due_date it = (case dtend it of Some d \<Rightarrow> Some d | None \<Rightarrow> dtstart it)"

definition todo_categories :: "'a item_scheme \<Rightarrow> string list option" where
  "todo_categories it =
     (let categories =
        (if truthy (course_id it) then [get_default (course_id it) []] else []) @
        (if truthy (type_tag it) then [get_default (type_tag it) []] else [])
      in if categories \<noteq> [] then Some categories else None)"


definition nonempty :: "string \<Rightarrow> string option" where
  "nonempty s = (if s \<noteq> [] then Some s else None)"

text \<open>
  The builders take the time that \<open>datetime.now(timezone.utc)\<close> returns as \<open>now\<close>. They
  return \<open>None\<close> when \<open>assignment[key]\<close> raises KeyError.
\<close>

definition assignment_to_vtodo ::
  "dt_value \<Rightarrow> 'a item_scheme \<Rightarrow> string \<Rightarrow> (component \<times> string) option" where
  "assignment_to_vtodo now assignment content_hash =
     do {
       canvas_uid \<leftarrow> uid assignment;
       title \<leftarrow> summary assignment;
       d \<leftarrow> description assignment;
       link \<leftarrow> url assignment;
       let task_uid = create_uid canvas_uid ''task'';
       Some ((new_component ''VTODO'')
               \<lparr>UID := Some task_uid,
                SUMMARY := Some title,
                DUE := due_date assignment,
                DESCRIPTION := todo_description d link,
                URL := nonempty link,
                DTSTAMP := Some now,
                CREATED := Some now,
                LAST_MODIFIED := Some now,
                STATUS := Some ''NEEDS-ACTION'',
                PRIORITY := Some 5,
                X_CANVAS_HASH := Some content_hash,
                CATEGORIES := todo_categories assignment\<rparr>, task_uid)
     }"

definition update_vtodo ::
  "dt_value \<Rightarrow> component \<Rightarrow> 'a item_scheme \<Rightarrow> string \<Rightarrow> component option" where
  "update_vtodo now existing_component assignment content_hash =
     do {
       canvas_uid \<leftarrow> uid assignment;
       title \<leftarrow> summary assignment;
       d \<leftarrow> description assignment;
       link \<leftarrow> url assignment;
       let task_uid = create_uid canvas_uid ''task'';
       Some ((new_component ''VTODO'')
               \<lparr>UID := Some task_uid,
                SUMMARY := Some title,
                DUE := due_date assignment,
                DESCRIPTION := todo_description d link,
                URL := nonempty link,
                DTSTAMP := Some now,
                CREATED := (case CREATED existing_component of
                              Some original_created \<Rightarrow> Some original_created
                            | None \<Rightarrow> Some now),
                LAST_MODIFIED := Some now,
                STATUS := Some (get_default (STATUS existing_component) ''NEEDS-ACTION''),
                PERCENT_COMPLETE := (case PERCENT_COMPLETE existing_component of
                                       Some original_percent \<Rightarrow>
                                         if original_percent \<noteq> 0 then Some original_percent else None
                                     | None \<Rightarrow> None),
                COMPLETED := COMPLETED existing_component,
                PRIORITY := Some 5,
                X_CANVAS_HASH := Some content_hash,
                CATEGORIES := todo_categories assignment\<rparr>)
     }"



section \<open>The CalDAV calendar\<close>

text \<open>
  The calendar of the \<open>caldav\<close> library is a collaborator outside this repository. It is a
  parameter: a state \<open>'s\<close> of the world (the server and the clock) and the operations the
  code calls on it. A listing returns \<open>None\<close> when the call raises; a write returns whether
  it returned normally (\<open>False\<close>: it raised) and the state it leaves. A stored object has its
  address and its data, \<open>None\<close> when \<open>Calendar.from_ical\<close> raises on it, else the components
  that \<open>walk()\<close> yields. Serialising a component for a write and parsing it back are not
  modelled: a write takes the component.
\<close>

record cal_object =
  href :: string
  data :: "component list option"

record 's calendar =
  todos :: "'s \<Rightarrow> cal_object list option"
  events :: "'s \<Rightarrow> cal_object list option"
  save_todo :: "component \<Rightarrow> 's \<Rightarrow> bool \<times> 's"
  save_event :: "component \<Rightarrow> 's \<Rightarrow> bool \<times> 's"
  delete :: "cal_object \<Rightarrow> 's \<Rightarrow> bool \<times> 's"
  utcnow :: "'s \<Rightarrow> dt_value"

section \<open>caldav_client.py: the index of existing items\<close>

record existing_item =
  hash :: string
  object :: cal_object
  component :: component

type_synonym existing_index = "string \<rightharpoonup> existing_item"




section \<open>sync.py: synchronisation\<close>

text \<open>
  The state of a run: the world, the counters, the list of updated items and the lines
  printed for single items (with the title cut to 40 characters). \<open>trace\<close> is not in the
  code: it records each write the run calls, in order. The change descriptions of
  \<open>detect_changes\<close> are printed only and are left out.
\<close>

datatype call = Delete cal_object | Save_todo component | Save_event component

datatype message =
  Unchanged string | Updating string | Update_failed string | Added string | Failed string

record 's run_state =
  world :: 's
  trace :: "call list"
  tasks_added :: nat
  tasks_updated :: nat
  tasks_unchanged :: nat
  events_added :: nat
  events_updated :: nat
  events_unchanged :: nat
  updated_items :: "(string \<times> string) list"
  printed :: "message list"


definition say :: "message \<Rightarrow> 's run_state \<Rightarrow> 's run_state" where
  "say m st = st\<lparr>printed := printed st @ [m]\<rparr>"

text \<open>A write: the call is recorded, the world is what the call leaves.\<close>

definition do_delete :: "'s calendar \<Rightarrow> cal_object \<Rightarrow> 's run_state \<Rightarrow> bool \<times> 's run_state" where
  "do_delete cal obj st =
     (case delete cal obj (world st) of
        (ok, s') \<Rightarrow> (ok, st\<lparr>world := s', trace := trace st @ [Delete obj]\<rparr>))"

definition do_save_todo :: "'s calendar \<Rightarrow> component \<Rightarrow> 's run_state \<Rightarrow> bool \<times> 's run_state" where
  "do_save_todo cal c st =
     (case save_todo cal c (world st) of
        (ok, s') \<Rightarrow> (ok, st\<lparr>world := s', trace := trace st @ [Save_todo c]\<rparr>))"


text \<open>
  The body of the loop over the assignments. \<open>None\<close>: a KeyError leaves the loop and the
  run. An exception of \<open>delete\<close> or \<open>save_todo\<close> is caught inside the body.
\<close>

definition sync_task ::
  "'s calendar \<Rightarrow> existing_index \<Rightarrow> 's run_state \<Rightarrow> item \<Rightarrow> 's run_state option" where
  "sync_task cal existing_todos st assignment =
     do {
       canvas_uid \<leftarrow> uid assignment;
       let task_uid = create_uid canvas_uid ''task'';
       let content_hash = compute_item_hash assignment;
       title \<leftarrow> summary assignment;
       case existing_todos task_uid of
         Some existing \<Rightarrow>
           if hash existing = content_hash
           then Some ((say (Unchanged (take 40 title)) st)\<lparr>tasks_unchanged := tasks_unchanged st + 1\<rparr>)
           else do {
             let st1 = (say (Updating (take 40 title)) st)
                         \<lparr>updated_items := updated_items st @ [(''Task'', title)]\<rparr>;
             updated_todo \<leftarrow>
               update_vtodo (utcnow cal (world st)) (component existing) assignment content_hash;
             case do_delete cal (object existing) st1 of
               (deleted, st2) \<Rightarrow>
                 if \<not> deleted then Some (say (Update_failed (take 40 title)) st2)
                 else (case do_save_todo cal updated_todo st2 of
                         (saved, st3) \<Rightarrow>
                           if saved then Some (st3\<lparr>tasks_updated := tasks_updated st3 + 1\<rparr>)
                           else Some (say (Update_failed (take 40 title)) st3))
           }
       | None \<Rightarrow> do {
           (todo, _) \<leftarrow> assignment_to_vtodo (utcnow cal (world st)) assignment content_hash;
           case do_save_todo cal todo st of
             (saved, st1) \<Rightarrow>
               if saved
               then Some ((say (Added (take 40 title)) st1)\<lparr>tasks_added := tasks_added st1 + 1\<rparr>)
               else Some (say (Failed (take 40 title)) st1)
         }
     }"




section \<open>Example values\<close>

text \<open>Concrete items and records at which the theorems below are instantiated.\<close>

definition example_time :: dt_value where
  "example_time =
     Datetime_value \<lparr>on_date = \<lparr>year = 2026, month = 1, day = 15\<rparr>, hour = 8, minute = 30,
       second = 0, microsecond = 0, utcoffset = Some 0\<rparr>"

definition example_created :: dt_value where
  "example_created =
     Datetime_value \<lparr>on_date = \<lparr>year = 2025, month = 12, day = 1\<rparr>, hour = 17, minute = 5,
       second = 9, microsecond = 0, utcoffset = Some 0\<rparr>"

definition example_completed :: dt_value where
  "example_completed =
     Datetime_value \<lparr>on_date = \<lparr>year = 2026, month = 1, day = 10\<rparr>, hour = 21, minute = 0,
       second = 0, microsecond = 0, utcoffset = Some 0\<rparr>"

definition example_item :: item where
  "example_item =
     \<lparr>uid = Some ''event-assignment-42'',
      summary = Some ''[HIST-1700-07 American History]: Essay 2 (revised)'',
      dtstart = Some (Date_value \<lparr>year = 2026, month = 2, day = 1\<rparr>),
      dtend = None,
      description = Some ''Write the essay'',
      url = Some ''https://canvas.example/42'',
      location = Some [],
      course_id = Some ''HIST-1700-07'',
      type_tag = Some ''Essay''\<rparr>"

definition example_prior :: component where
  "example_prior =
     (new_component ''VTODO'')
       \<lparr>UID := Some ''canvas-task-event-assignment-42'',
        SUMMARY := Some ''[HIST-1700-07 American History]: Essay 2'',
        CREATED := Some example_created,
        STATUS := Some ''COMPLETED'',
        PRIORITY := Some 1,
        PERCENT_COMPLETE := Some 100,
        COMPLETED := Some example_completed,
        X_CANVAS_HASH := Some ''0123456789abcdef''\<rparr>"

definition bar_in_title :: item where
  "bar_in_title =
     \<lparr>uid = Some ''event-assignment-7'', summary = Some ''a|b'', dtstart = None, dtend = None,
      description = Some [], url = Some [], location = Some [], course_id = None,
      type_tag = None\<rparr>"

definition bar_moved :: item where
  "bar_moved = bar_in_title\<lparr>summary := Some ''a'', description := Some ''b''\<rparr>"

section \<open>Reading a run\<close>











section \<open>A calendar in memory\<close>








text \<open>A no-class notice whose title also carries a bracketed course code.\<close>

definition example_config :: sync_config where
  "example_config =
     \<lparr>end_date = Some \<lparr>year = 2026, month = 5, day = 8\<rparr>,
      no_class_keywords = [''no classes'', ''no school'', ''holiday'', ''break''],
      assignment_uid_keywords = [''assignment''],
      assignment_summary_keywords = []\<rparr>"

definition holiday_event :: component where
  "holiday_event =
     (new_component ''VEVENT'')
       \<lparr>UID := Some ''event-calendar-event-9'',
        SUMMARY := Some ''[HIST-1700-07 American History]: No Classes - Holiday'',
        DTSTART := Some (Date_value \<lparr>year = 2026, month = 2, day = 16\<rparr>)\<rparr>"

section \<open>Course identifier extraction: results\<close>

lemma extract_it_3150:
  "extract_course_id_from_summary ''[IT-3150 Windows Servers]'' = Some ''IT-3150''"
  by code_simp

lemma search_course_no_bracket: "CHR ''['' \<notin> set title \<Longrightarrow> search_course title = None"
  by (induction title) (auto simp: match_course_at_def)

text \<open>
  C4. Course-identifier extraction on the title \<open>[HIST-1700-07 American History]: Essay 2\<close>:
  the greedy group takes the section suffix with it, so the code returns \<open>HIST-1700-07\<close>
  and not the code portion \<open>HIST-1700\<close> that the claim and the comment in the code name.
\<close>

theorem extract_course_id_keeps_section_suffix:
  "extract_course_id_from_summary ''[HIST-1700-07 American History]: Essay 2'' = Some ''HIST-1700-07''"
  by code_simp

section \<open>Assignment type tag: results\<close>

lemma tag_lab_3_report: "get_assignment_type_tag ''Lab 3 Report'' = ''Essay''"
  by code_simp

lemma tag_lab_3: "get_assignment_type_tag ''Lab 3'' = ''Lab''"
  by code_simp

lemma tag_collaborative: "get_assignment_type_tag ''Collaborative'' = ''Assignment''"
  by code_simp

lemma any_keyword_list_ex:
  "any_keyword kws s = list_ex (\<lambda>keyword. search_word keyword s) kws"
  by (induction kws) auto

lemma scan_tags_find:
  "scan_tags table s =
     (case find (\<lambda>entry. list_ex (\<lambda>keyword. search_word keyword s) (snd entry)) table of
        None \<Rightarrow> DEFAULT_ASSIGNMENT_TYPE_TAG
      | Some entry \<Rightarrow> fst entry)"
  by (induction table s rule: scan_tags.induct) (auto simp: any_keyword_list_ex)

text \<open>
  C5 as stated fails: the title \<open>Lab 3 Report\<close> is not tagged \<open>Lab\<close>.
\<close>

theorem lab_3_report_not_tagged_lab: "get_assignment_type_tag ''Lab 3 Report'' \<noteq> ''Lab''"
  by (simp add: tag_lab_3_report)

text \<open>
  C5, amended. Type tagging returns the first tag of the table, in its defined order, one of
  whose keywords occurs as a whole word in the lower-cased title, and the default tag when
  there is none. The title \<open>Lab 3 Report\<close> is tagged \<open>Essay\<close> (\<open>report\<close> is a keyword of
  \<open>Essay\<close>, which stands before \<open>Lab\<close>), the title \<open>Lab 3\<close> is tagged \<open>Lab\<close>, and the
  title \<open>Collaborative\<close> gets the default tag, not \<open>Lab\<close>.
\<close>

theorem type_tag_is_first_match_in_table_order:
  "get_assignment_type_tag title = first_matching_tag ASSIGNMENT_TYPE_KEYWORDS title \<and>
   get_assignment_type_tag ''Lab 3 Report'' = ''Essay'' \<and>
   get_assignment_type_tag ''Lab 3'' = ''Lab'' \<and>
   get_assignment_type_tag ''Collaborative'' = DEFAULT_ASSIGNMENT_TYPE_TAG \<and>
   DEFAULT_ASSIGNMENT_TYPE_TAG \<noteq> ''Lab''"
proof -
  have "get_assignment_type_tag title = first_matching_tag ASSIGNMENT_TYPE_KEYWORDS title"
    by (simp add: get_assignment_type_tag_def first_matching_tag_def scan_tags_find)
  moreover have "DEFAULT_ASSIGNMENT_TYPE_TAG \<noteq> ''Lab''"
    by (simp add: DEFAULT_ASSIGNMENT_TYPE_TAG_def)
  moreover have "get_assignment_type_tag ''Collaborative'' = DEFAULT_ASSIGNMENT_TYPE_TAG"
    by (simp only: tag_collaborative DEFAULT_ASSIGNMENT_TYPE_TAG_def)
  ultimately show ?thesis
    using tag_lab_3_report tag_lab_3 by blast
qed

section \<open>Record builder: results\<close>

lemma update_vtodo_Some:
  assumes "update_vtodo now prior a h = Some todo"
  shows "CREATED todo = (case CREATED prior of Some c \<Rightarrow> Some c | None \<Rightarrow> Some now)"
    and "STATUS todo = Some (get_default (STATUS prior) ''NEEDS-ACTION'')"
    and "COMPLETED todo = COMPLETED prior"
    and "PERCENT_COMPLETE todo =
           (case PERCENT_COMPLETE prior of
              Some p \<Rightarrow> if p \<noteq> 0 then Some p else None
            | None \<Rightarrow> None)"
    and "PRIORITY todo = Some 5"
    and "SUMMARY todo = summary a"
    and "X_CANVAS_HASH todo = Some h"
  using assms
  by (auto simp: update_vtodo_def new_component_def Let_def split: Option.bind_splits)

lemma example_update_defined:
  "\<exists>todo. update_vtodo now prior example_item h = Some todo"
  by (simp add: update_vtodo_def example_item_def)

lemma example_prior_fields:
  "CREATED example_prior = Some example_created"
  "STATUS example_prior = Some ''COMPLETED''"
  "COMPLETED example_prior = Some example_completed"
  "PERCENT_COMPLETE example_prior = Some 100"
  "PRIORITY example_prior = Some 1"
  by (simp_all add: example_prior_def new_component_def)

text \<open>
  What an update carries forward: the creation timestamp of the prior record when it has
  one (the build time otherwise), its status when it has one (\<open>NEEDS-ACTION\<close> otherwise),
  its completion timestamp, and its percent-complete when that is absent or not zero; the
  title and the embedded fingerprint come from the new item.
\<close>

lemma update_vtodo_carries_prior_state:
  assumes "update_vtodo now prior a (compute_item_hash a) = Some todo"
  shows "CREATED todo = (case CREATED prior of Some c \<Rightarrow> Some c | None \<Rightarrow> Some now) \<and>
         STATUS todo = Some (get_default (STATUS prior) ''NEEDS-ACTION'') \<and>
         COMPLETED todo = COMPLETED prior \<and>
         (PERCENT_COMPLETE prior \<noteq> Some 0 \<longrightarrow> PERCENT_COMPLETE todo = PERCENT_COMPLETE prior) \<and>
         SUMMARY todo = summary a \<and>
         X_CANVAS_HASH todo = Some (compute_item_hash a)"
  using update_vtodo_Some [OF assms] by (auto split: option.splits)

text \<open>A completed task whose title changed stays completed, with its percent-complete 100.\<close>

lemma update_vtodo_keeps_completed_example:
  "CREATED (the (update_vtodo example_time example_prior example_item
      (compute_item_hash example_item))) = Some example_created \<and>
   STATUS (the (update_vtodo example_time example_prior example_item
      (compute_item_hash example_item))) = Some ''COMPLETED'' \<and>
   COMPLETED (the (update_vtodo example_time example_prior example_item
      (compute_item_hash example_item))) = Some example_completed \<and>
   PERCENT_COMPLETE (the (update_vtodo example_time example_prior example_item
      (compute_item_hash example_item))) = Some 100 \<and>
   SUMMARY (the (update_vtodo example_time example_prior example_item
      (compute_item_hash example_item))) =
     Some ''[HIST-1700-07 American History]: Essay 2 (revised)'' \<and>
   X_CANVAS_HASH (the (update_vtodo example_time example_prior example_item
      (compute_item_hash example_item))) = Some (compute_item_hash example_item)"
proof -
  obtain todo where eq:
    "update_vtodo example_time example_prior example_item (compute_item_hash example_item) =
       Some todo"
    using example_update_defined by blast
  have title: "summary example_item = Some ''[HIST-1700-07 American History]: Essay 2 (revised)''"
    by (simp add: example_item_def)
  show ?thesis
    using update_vtodo_carries_prior_state [OF eq]
    by (simp add: eq example_prior_fields title get_default_def)
qed

text \<open>
  C2. On an update the rebuilt task record is to carry the prior record's creation
  timestamp, completion status, completion timestamp and percent-complete unchanged. The
  code fails this for the percent-complete at a prior record whose percent-complete is 0:
  the test \<open>if original_percent:\<close> is false for 0, so the rebuilt record has no
  percent-complete, while the creation timestamp, the status and the completion timestamp
  of the same prior record are carried over.
\<close>

theorem update_vtodo_drops_zero_percent_complete:
  "PERCENT_COMPLETE (example_prior\<lparr>PERCENT_COMPLETE := Some 0\<rparr>) = Some 0 \<and>
   map_option PERCENT_COMPLETE
     (update_vtodo example_time (example_prior\<lparr>PERCENT_COMPLETE := Some 0\<rparr>) example_item
        (compute_item_hash example_item)) = Some None \<and>
   map_option CREATED
     (update_vtodo example_time (example_prior\<lparr>PERCENT_COMPLETE := Some 0\<rparr>) example_item
        (compute_item_hash example_item)) = Some (Some example_created) \<and>
   map_option STATUS
     (update_vtodo example_time (example_prior\<lparr>PERCENT_COMPLETE := Some 0\<rparr>) example_item
        (compute_item_hash example_item)) = Some (Some ''COMPLETED'') \<and>
   map_option COMPLETED
     (update_vtodo example_time (example_prior\<lparr>PERCENT_COMPLETE := Some 0\<rparr>) example_item
        (compute_item_hash example_item)) = Some (Some example_completed)"
proof -
  obtain todo where eq:
    "update_vtodo example_time (example_prior\<lparr>PERCENT_COMPLETE := Some 0\<rparr>) example_item
       (compute_item_hash example_item) = Some todo"
    using example_update_defined by blast
  show ?thesis
    using update_vtodo_Some(1-4) [OF eq]
    by (simp add: eq example_prior_fields get_default_def)
qed

text \<open>
  C9 as stated fails: a prior record with priority 1 is rebuilt with priority 5.
\<close>

theorem update_vtodo_overwrites_prior_priority:
  "map_option PRIORITY
     (update_vtodo example_time example_prior example_item (compute_item_hash example_item))
   \<noteq> Some (PRIORITY example_prior)"
proof -
  obtain todo where eq:
    "update_vtodo example_time example_prior example_item (compute_item_hash example_item) =
       Some todo"
    using example_update_defined by blast
  show ?thesis
    using update_vtodo_Some(5) [OF eq] by (simp add: eq example_prior_fields)
qed

text \<open>
  C9, amended. For every update of an existing task record that returns a record, the
  priority of the rebuilt record is the fixed value 5 that the builder sets, whatever the
  priority of the prior remote record was.
\<close>

theorem update_vtodo_sets_fixed_priority:
  "update_vtodo now prior a h = Some todo \<Longrightarrow> PRIORITY todo = Some 5"
  by (rule update_vtodo_Some(5))

theorem update_vtodo_sets_fixed_priority_witness:
  "PRIORITY (the (update_vtodo example_time example_prior example_item
      (compute_item_hash example_item))) = Some 5"
proof -
  obtain todo where eq:
    "update_vtodo example_time example_prior example_item (compute_item_hash example_item) =
       Some todo"
    using example_update_defined by blast
  show ?thesis
    using update_vtodo_sets_fixed_priority [OF eq] by (simp add: eq)
qed

section \<open>Fingerprint: results\<close>

lemma hash_content_absent_empty:
  "hash_content (a\<lparr>summary := None\<rparr>) = hash_content (a\<lparr>summary := Some []\<rparr>)"
  "hash_content (a\<lparr>description := None\<rparr>) = hash_content (a\<lparr>description := Some []\<rparr>)"
  "hash_content (a\<lparr>url := None\<rparr>) = hash_content (a\<lparr>url := Some []\<rparr>)"
  "hash_content (a\<lparr>location := None\<rparr>) = hash_content (a\<lparr>location := Some []\<rparr>)"
  "hash_content (a\<lparr>course_id := None\<rparr>) = hash_content (a\<lparr>course_id := Some []\<rparr>)"
  "hash_content (a\<lparr>type_tag := None\<rparr>) = hash_content (a\<lparr>type_tag := Some []\<rparr>)"
  by (simp_all add: hash_content_def get_default_def truthy_def)

text \<open>
  C3 as stated fails: the item with no description and the same item with the empty
  description have the same digest.
\<close>

theorem hash_absent_description_equals_empty:
  "compute_item_hash (example_item\<lparr>description := None\<rparr>) =
   compute_item_hash (example_item\<lparr>description := Some []\<rparr>)"
  by (simp add: compute_item_hash_def hash_content_absent_empty)

text \<open>
  C3, amended. For each of title, description, URL, location, course id and type tag, the
  fingerprint does not distinguish the field being absent from the field being the empty
  string: an item with the field omitted and the same item with the field set to the
  empty string have the same digest.
\<close>

theorem hash_ignores_absent_versus_empty:
  "compute_item_hash (a\<lparr>summary := None\<rparr>) = compute_item_hash (a\<lparr>summary := Some []\<rparr>) \<and>
   compute_item_hash (a\<lparr>description := None\<rparr>) =
     compute_item_hash (a\<lparr>description := Some []\<rparr>) \<and>
   compute_item_hash (a\<lparr>url := None\<rparr>) = compute_item_hash (a\<lparr>url := Some []\<rparr>) \<and>
   compute_item_hash (a\<lparr>location := None\<rparr>) = compute_item_hash (a\<lparr>location := Some []\<rparr>) \<and>
   compute_item_hash (a\<lparr>course_id := None\<rparr>) = compute_item_hash (a\<lparr>course_id := Some []\<rparr>) \<and>
   compute_item_hash (a\<lparr>type_tag := None\<rparr>) = compute_item_hash (a\<lparr>type_tag := Some []\<rparr>)"
  by (simp add: compute_item_hash_def hash_content_absent_empty)

text \<open>
  C7. The fingerprint is a function of the eight fields title, description, URL, location,
  start, end, course id and type tag: two items that agree on them have the same digest,
  whatever their identifiers and whatever other keys they carry. The build time and the
  prior remote record (completion state, priority, creation and modification timestamps)
  are no inputs: two rebuilt records for such items embed the same digest whatever the
  times and the prior records are.
\<close>

theorem hash_depends_on_eight_fields_only:
  fixes a :: "'a item_scheme" and b :: "'b item_scheme"
  assumes "summary a = summary b" "description a = description b" "url a = url b"
    "location a = location b" "dtstart a = dtstart b" "dtend a = dtend b"
    "course_id a = course_id b" "type_tag a = type_tag b"
  shows "compute_item_hash a = compute_item_hash b \<and>
         (\<forall>now prior now' prior' t t'.
            update_vtodo now prior a (compute_item_hash a) = Some t \<longrightarrow>
            update_vtodo now' prior' b (compute_item_hash b) = Some t' \<longrightarrow>
            X_CANVAS_HASH t = X_CANVAS_HASH t')"
proof -
  have "hash_content a = hash_content b"
    using assms by (simp add: hash_content_def)
  then have h: "compute_item_hash a = compute_item_hash b"
    by (simp add: compute_item_hash_def)
  have "X_CANVAS_HASH t = X_CANVAS_HASH t'"
    if "update_vtodo now prior a (compute_item_hash a) = Some t"
      and "update_vtodo now' prior' b (compute_item_hash b) = Some t'"
    for now prior now' prior' t t'
    using update_vtodo_Some(7) [OF that(1)] update_vtodo_Some(7) [OF that(2)] h by simp
  with h show ?thesis by blast
qed

theorem hash_depends_on_eight_fields_only_witness:
  "compute_item_hash example_item =
     compute_item_hash (example_item\<lparr>uid := Some ''another-uid''\<rparr>) \<and>
   X_CANVAS_HASH (the (update_vtodo example_time example_prior example_item
      (compute_item_hash example_item))) =
   X_CANVAS_HASH (the (update_vtodo example_created
      (example_prior\<lparr>STATUS := Some ''NEEDS-ACTION'', PRIORITY := Some 9\<rparr>)
      (example_item\<lparr>uid := Some ''another-uid''\<rparr>)
      (compute_item_hash (example_item\<lparr>uid := Some ''another-uid''\<rparr>))))"
proof -
  let ?b = "example_item\<lparr>uid := Some ''another-uid''\<rparr>"
  obtain t where t:
    "update_vtodo example_time example_prior example_item (compute_item_hash example_item) =
       Some t"
    using example_update_defined by blast
  obtain t' where t':
    "update_vtodo example_created
       (example_prior\<lparr>STATUS := Some ''NEEDS-ACTION'', PRIORITY := Some 9\<rparr>) ?b
       (compute_item_hash ?b) = Some t'"
    by (simp add: update_vtodo_def example_item_def)
  have "compute_item_hash example_item = compute_item_hash ?b \<and>
         (\<forall>now prior now' prior' t t'.
            update_vtodo now prior example_item (compute_item_hash example_item) = Some t \<longrightarrow>
            update_vtodo now' prior' ?b (compute_item_hash ?b) = Some t' \<longrightarrow>
            X_CANVAS_HASH t = X_CANVAS_HASH t')"
    by (rule hash_depends_on_eight_fields_only) simp_all
  then show ?thesis
    using t t' by (metis option.sel)
qed

section \<open>Fingerprint: the separator\<close>

lemma word_bytes_4:
  "word_bytes 4 w =
     [unat (w AND 255), unat (drop_bit 8 w AND 255), unat (drop_bit 8 (drop_bit 8 w) AND 255),
      unat (drop_bit 8 (drop_bit 8 (drop_bit 8 w)) AND 255)]"
  by (simp add: eval_nat_numeral)

lemma upt_from_0: "[0..<64] = 0 # [Suc 0..<64]"
  by (simp add: upt_conv_Cons)

lemma upt_from_1: "[Suc 0..<64] = Suc 0 # [2..<64]"
  by (simp add: upt_conv_Cons)

lemmas md5_block_eval = upt_from_0 upt_from_1 upt_rec_numeral md5_block_def md5_step_def md5_initial_def md5_mix_def
  md5_index_def md5_shifts_def md5_sines_def rotate_left_def

lemma words_bar_in_title: "map md5_words (split_every 64 (md5_pad (map of_char ''a|b|||''))) =
    [[2086829153, 8420476, 0, 0, 0, 0, 0, 0, 0, 0, 0, 0, 0, 0, 48, 0]]"
  by code_simp

lemma words_bar_moved: "map md5_words (split_every 64 (md5_pad (map of_char ''a|b||''))) =
    [[2086829153, 32892, 0, 0, 0, 0, 0, 0, 0, 0, 0, 0, 0, 0, 40, 0]]"
  by code_simp

lemma block_bar_in_title: "md5_block md5_initial [2086829153, 8420476, 0, 0, 0, 0, 0, 0, 0, 0, 0, 0, 0, 0, 48, 0] =
    (3917323587, 2479167386, 3861251237, 1077568034)"
  by (simp add: md5_block_eval)

lemma block_bar_moved: "md5_block md5_initial [2086829153, 32892, 0, 0, 0, 0, 0, 0, 0, 0, 0, 0, 0, 0, 40, 0] =
    (4282562218, 2722792405, 874366720, 4179900046)"
  by (simp add: md5_block_eval)

lemma md5_bar_in_title: "take 16 (md5_hexdigest ''a|b|||'') = ''439d7de99a17c593''"
  unfolding md5_hexdigest_def md5_digest_def words_bar_in_title
  by (simp add: block_bar_in_title word_bytes_4 hex_byte_def hex_digits_def)

lemma md5_bar_moved: "take 16 (md5_hexdigest ''a|b||'') = ''aab642ffd5834aa2''"
  unfolding md5_hexdigest_def md5_digest_def words_bar_moved
  by (simp add: block_bar_moved word_bytes_4 hex_byte_def hex_digits_def)

lemma content_bar_in_title: "hash_content bar_in_title = ''a|b|||''"
  by (simp add: hash_content_def bar_in_title_def get_default_def truthy_def)

lemma content_bar_moved: "hash_content bar_moved = ''a|b||''"
  by (simp add: hash_content_def bar_moved_def bar_in_title_def get_default_def truthy_def)

text \<open>
  C10 as stated fails in its example: the item with title \<open>a|b\<close> and empty description
  and the item with title \<open>a\<close> and description \<open>b\<close> (all other fields equal) are
  hashed from the different strings \<open>a|b|||\<close> and \<open>a|b||\<close>, and their digests differ.
\<close>

theorem bar_example_digests_differ: "compute_item_hash bar_in_title \<noteq> compute_item_hash bar_moved"
  by (simp add: compute_item_hash_def content_bar_in_title content_bar_moved md5_bar_in_title md5_bar_moved)

section \<open>Reconciliation: results\<close>
























lemma content_collision:
  "hash_content (a\<lparr>summary := Some (t @ ''|'' @ d), description := Some []\<rparr>) =
   hash_content (a\<lparr>summary := Some t, description := Some (d @ ''|'')\<rparr>)"
  by (simp add: hash_content_def get_default_def)

text \<open>
  C10, amended. The fingerprint encoding is not injective over the source-significant
  fields, because title, description, URL and location are joined with an unescaped \<open>|\<close>:
  an item with title \<open>t|d\<close> and empty description has the same digest as the item with
  title \<open>t\<close> and description \<open>d|\<close> when all other fields agree (for example title
  \<open>a|b\<close> with empty description, and title \<open>a\<close> with description \<open>b|\<close>). So when a
  task changes from the first to the second between runs, the run reports it unchanged and
  writes nothing for it.
\<close>

theorem separator_collision:
  fixes a :: item
  shows "compute_item_hash (a\<lparr>summary := Some (t @ ''|'' @ d), description := Some []\<rparr>) =
     compute_item_hash (a\<lparr>summary := Some t, description := Some (d @ ''|'')\<rparr>) \<and>
   summary (a\<lparr>summary := Some (t @ ''|'' @ d), description := Some []\<rparr>) \<noteq>
     summary (a\<lparr>summary := Some t, description := Some (d @ ''|'')\<rparr>) \<and>
   sync_task cal
     (Map.empty(create_uid u ''task'' \<mapsto>
        \<lparr>hash = compute_item_hash (a\<lparr>uid := Some u, summary := Some (t @ ''|'' @ d), description := Some []\<rparr>),
         object = obj, component = c\<rparr>))
     st (a\<lparr>uid := Some u, summary := Some t, description := Some (d @ ''|'')\<rparr>) =
     Some ((say (Unchanged (take 40 t)) st)\<lparr>tasks_unchanged := tasks_unchanged st + 1\<rparr>)"
proof -
  have h: "compute_item_hash (b\<lparr>summary := Some (t @ ''|'' @ d), description := Some []\<rparr>) =
     compute_item_hash (b\<lparr>summary := Some t, description := Some (d @ ''|'')\<rparr>)" for b :: item
    unfolding compute_item_hash_def content_collision ..
  have "sync_task cal
     (Map.empty(create_uid u ''task'' \<mapsto>
        \<lparr>hash = compute_item_hash (a\<lparr>uid := Some u, summary := Some (t @ ''|'' @ d), description := Some []\<rparr>),
         object = obj, component = c\<rparr>))
     st (a\<lparr>uid := Some u, summary := Some t, description := Some (d @ ''|'')\<rparr>) =
     Some ((say (Unchanged (take 40 t)) st)\<lparr>tasks_unchanged := tasks_unchanged st + 1\<rparr>)"
    by (simp add: sync_task_def h [of "a\<lparr>uid := Some u\<rparr>", simplified])
  then show ?thesis
    using h [of a] by simp
qed

section \<open>Classification: results\<close>

lemma item_info_of_fields:
  "summary (item_info_of c) = Some (get_default (SUMMARY c) [])"
  "type_tag (item_info_of c) = None"
  by (simp_all add: item_info_of_def)

lemma classify_step_assignments:
  assumes "\<forall>a\<in>set (assignments b). type_tag a \<noteq> None \<and>
             \<not> matches_keywords (get_default (summary a) []) (no_class_keywords cfg)"
  shows "\<forall>a\<in>set (assignments (classify_step cfg b c)). type_tag a \<noteq> None \<and>
             \<not> matches_keywords (get_default (summary a) []) (no_class_keywords cfg)"
  using assms
  by (auto simp: classify_step_def Let_def item_info_of_fields get_default_def)

lemma classify_all_assignments:
  assumes "\<forall>a\<in>set (assignments b). type_tag a \<noteq> None \<and>
             \<not> matches_keywords (get_default (summary a) []) (no_class_keywords cfg)"
  shows "\<forall>a\<in>set (assignments (foldl (classify_step cfg) b cs)). type_tag a \<noteq> None \<and>
             \<not> matches_keywords (get_default (summary a) []) (no_class_keywords cfg)"
  using assms
proof (induction cs arbitrary: b)
  case Nil
  then show ?case by simp
next
  case (Cons c cs)
  show ?case
    using Cons.IH [OF classify_step_assignments [OF Cons.prems]] by simp
qed

lemma classify_step_keeps_no_class:
  "x \<in> set (no_class_events b) \<Longrightarrow> x \<in> set (no_class_events (classify_step cfg b c))"
  by (auto simp: classify_step_def Let_def)

lemma classify_all_keeps_no_class:
  "x \<in> set (no_class_events b) \<Longrightarrow> x \<in> set (no_class_events (foldl (classify_step cfg) b cs))"
  by (induction cs arbitrary: b) (auto simp: classify_step_keeps_no_class)

lemma classify_step_no_class:
  assumes "\<forall>a\<in>set (assignments b). type_tag a \<noteq> None"
    and "NAME c = ''VEVENT''" "is_within_date_range (item_info_of c) (end_date cfg)"
    and "matches_keywords (get_default (SUMMARY c) []) (no_class_keywords cfg)"
  shows "classify_step cfg b c = b\<lparr>no_class_events := no_class_events b @ [item_info_of c]\<rparr>"
proof -
  have "item_info_of c \<notin> set (assignments b)"
    using assms(1) item_info_of_fields(2) by blast
  then show ?thesis
    using assms(2-4) by (simp add: classify_step_def Let_def)
qed

lemma classify_all_no_class:
  assumes "c \<in> set cs"
    and "\<forall>a\<in>set (assignments b). type_tag a \<noteq> None \<and>
             \<not> matches_keywords (get_default (summary a) []) (no_class_keywords cfg)"
    and "NAME c = ''VEVENT''" "is_within_date_range (item_info_of c) (end_date cfg)"
    and "matches_keywords (get_default (SUMMARY c) []) (no_class_keywords cfg)"
  shows "item_info_of c \<in> set (no_class_events (foldl (classify_step cfg) b cs))"
  using assms(1,2)
proof (induction cs arbitrary: b)
  case Nil
  then show ?case by simp
next
  case (Cons d cs)
  have inv': "\<forall>a\<in>set (assignments (classify_step cfg b d)). type_tag a \<noteq> None \<and>
             \<not> matches_keywords (get_default (summary a) []) (no_class_keywords cfg)"
    by (rule classify_step_assignments [OF Cons.prems(2)])
  show ?case
  proof (cases "c = d")
    case True
    have "classify_step cfg b d = b\<lparr>no_class_events := no_class_events b @ [item_info_of c]\<rparr>"
      using classify_step_no_class [of b c cfg] Cons.prems(2) assms(3-5) True by blast
    then have "item_info_of c \<in> set (no_class_events (classify_step cfg b d))" by simp
    then show ?thesis
      by (simp add: classify_all_keeps_no_class)
  next
    case False
    then have "c \<in> set cs" using Cons.prems(1) by simp
    then show ?thesis
      using Cons.IH [OF _ inv'] by simp
  qed
qed

text \<open>
  C6. An item of the feed that is in the date range and whose title matches a no-class
  keyword is put into the no-class list, whether or not a bracketed course code can be
  extracted from its title: the loop body appends it to the no-class events and leaves the
  assignments as they are, the list of no-class events that \<open>fetch_canvas_items\<close> returns
  holds it, and no item of the returned assignments has a title that matches a no-class
  keyword.
\<close>

theorem no_class_checked_before_course_id:
  assumes "c \<in> set components" "NAME c = ''VEVENT''"
    and "is_within_date_range (item_info_of c) (end_date cfg)"
    and "matches_keywords (get_default (SUMMARY c) []) (no_class_keywords cfg)"
  shows "assignments (classify_step cfg b c) = assignments b \<and>
         (\<exists>x. no_class_events (classify_step cfg b c) = no_class_events b @ [x] \<and>
              uid x = uid (item_info_of c) \<and> summary x = summary (item_info_of c) \<and>
              course_id x = course_id (item_info_of c)) \<and>
         item_info_of c \<in> set (snd (fetch_canvas_items cfg components)) \<and>
         (\<forall>a\<in>set (fst (fetch_canvas_items cfg components)).
            \<not> matches_keywords (get_default (summary a) []) (no_class_keywords cfg))"
proof -
  have start: "\<forall>a\<in>set (assignments empty_buckets). type_tag a \<noteq> None \<and>
             \<not> matches_keywords (get_default (summary a) []) (no_class_keywords cfg)"
    by (simp add: empty_buckets_def)
  have step: "assignments (classify_step cfg b c) = assignments b \<and>
         (\<exists>x. no_class_events (classify_step cfg b c) = no_class_events b @ [x] \<and>
              uid x = uid (item_info_of c) \<and> summary x = summary (item_info_of c) \<and>
              course_id x = course_id (item_info_of c))"
    using assms(2-4) by (simp add: classify_step_def Let_def)
  have "item_info_of c \<in> set (snd (fetch_canvas_items cfg components))"
    using classify_all_no_class [OF assms(1) start assms(2-4)]
    by (simp add: fetch_canvas_items_def classify_all_def Let_def)
  moreover have "\<forall>a\<in>set (fst (fetch_canvas_items cfg components)).
            \<not> matches_keywords (get_default (summary a) []) (no_class_keywords cfg)"
    using classify_all_assignments [OF start, of components]
    by (simp add: fetch_canvas_items_def classify_all_def Let_def)
  ultimately show ?thesis using step by blast
qed

lemma holiday_facts:
  "NAME holiday_event = ''VEVENT''"
  "is_within_date_range (item_info_of holiday_event) (end_date example_config)"
  "matches_keywords (get_default (SUMMARY holiday_event) []) (no_class_keywords example_config)"
  "course_id (item_info_of holiday_event) = Some ''HIST-1700-07''"
  by code_simp+

theorem no_class_checked_before_course_id_witness:
  "item_info_of holiday_event \<in> set (snd (fetch_canvas_items example_config [holiday_event])) \<and>
   assignments (classify_step example_config empty_buckets holiday_event) = [] \<and>
   course_id (item_info_of holiday_event) = Some ''HIST-1700-07''"
proof -
  have "holiday_event \<in> set [holiday_event]" by simp
  from no_class_checked_before_course_id [OF this holiday_facts(1-3), of empty_buckets]
  have "item_info_of holiday_event \<in> set (snd (fetch_canvas_items example_config [holiday_event]))"
    and "assignments (classify_step example_config empty_buckets holiday_event) = []"
    by (simp_all add: empty_buckets_def)
  then show ?thesis
    using holiday_facts(4) by simp
qed

end
